theory Spec2Isabelle
  imports Main "HOL-Library.Word"
begin

unbundle bit_operations_syntax

section \<open>The USB library as seen by siig_switch.cpp\<close>

text \<open>
  The program talks to the outside only through libusb calls and through lines written to
  the standard error stream. A pointer is modelled by a number that identifies it, the
  null pointer by \<open>None\<close>.
\<close>

type_synonym device = nat
type_synonym dev_handle = nat
type_synonym usb_context = nat

record device_descriptor =
  idVendor :: "16 word"
  idProduct :: "16 word"

record interface_descriptor =
  bInterfaceNumber :: "8 word"

text \<open>
  libusb stores an array together with its element count (\<open>altsetting\<close> with
  \<open>num_altsetting\<close>, \<open>interface\<close> with \<open>bNumInterfaces\<close>); the array is the
  list and the count is its length.
\<close>

record usb_interface =
  altsetting :: "interface_descriptor list"

record config_descriptor =
  interface :: "usb_interface list"

definition num_altsetting :: "usb_interface \<Rightarrow> int" where
  "num_altsetting i = int (length (altsetting i))"

definition bNumInterfaces :: "config_descriptor \<Rightarrow> nat" where
  "bNumInterfaces c = length (interface c)"

text \<open>The arguments of one \<open>libusb_control_transfer\<close> call, with the C parameter types.\<close>

record control_setup =
  dev_handle :: "dev_handle option"
  bmRequestType :: "8 word"
  bRequest :: "8 word"
  wValue :: "16 word"
  wIndex :: "16 word"
  data :: "8 word list"
  wLength :: "16 word"
  timeout :: "32 word"

text \<open>The libusb calls the program makes, with their arguments.\<close>

datatype usb_call =
    Init
  | Exit "usb_context option"
  | Get_device_list
  | Get_device_descriptor device
  | Ref_device device
  | Unref_device device
  | Free_device_list "device list" int
  | Get_active_config_descriptor device
  | Free_config_descriptor device
  | Open_device device
  | Kernel_driver_active "dev_handle option" int
  | Detach_kernel_driver "dev_handle option" int
  | Attach_kernel_driver "dev_handle option" int
  | Claim_interface "dev_handle option" int
  | Close_handle "dev_handle option"
  | Control_transfer control_setup

text \<open>
  The lines the program prints on stderr, one constructor per format string, with the
  values the format string prints:
  \<^item> \<open>Open_failed\<close>: "libusb_open failed in kvm_device constructor"
  \<^item> \<open>Kernel_driver_active_failed\<close>: "libusb_kernel_driver_active failed in kvm_device constructor"
  \<^item> \<open>Claim_failed\<close>: "libusb_claim_interface failed in kvm_device constructor"
  \<^item> \<open>Write_failed\<close>: "failed to write data in send_request"
  \<^item> \<open>Short_write rc length\<close>: "libusb_control_transfer returned short, wrote %d, expected %zu"
  \<^item> \<open>No_device\<close>: "failed to find a connected KVM device"
  \<^item> \<open>Multiple_devices\<close>: "found multiple connected KVM devices"
  \<^item> \<open>Config_failed rc\<close>: "failed to get active config descriptor: %s"
  \<^item> \<open>Bad_interface_count n\<close>: "unexpected number of interfaces: %u, expected 2"
  \<^item> \<open>Bad_altsetting_count n\<close>: "unexpected number of alternate interfaces: %d, expected 1"
  \<^item> \<open>Init_failed\<close>: "error: failed to initialize libusb"
  \<^item> \<open>Libusb_error rc\<close>: "libusb error: %s"
\<close>

datatype diagnostic =
    Open_failed
  | Kernel_driver_active_failed
  | Claim_failed
  | Write_failed
  | Short_write int nat
  | No_device
  | Multiple_devices
  | Config_failed int
  | Bad_interface_count nat
  | Bad_altsetting_count int
  | Init_failed
  | Libusb_error int

text \<open>
  What the USB subsystem answers. Every field is the answer of one libusb function, as a
  function of the call's arguments:
  \<^item> \<open>init_rc\<close>, \<open>init_ctx\<close>: the result of \<open>libusb_init\<close> and the context it creates;
  \<^item> \<open>device_list\<close>: the count \<open>libusb_get_device_list\<close> returns and the array it stores;
  \<^item> \<open>descriptor_rc\<close>, \<open>descriptor_of\<close>: the result of \<open>libusb_get_device_descriptor\<close>
    and the device's descriptor; \<open>descriptor_stale\<close> is what the caller's uninitialised
    structure holds when the query wrote nothing;
  \<^item> \<open>config_rc\<close>, \<open>config_of\<close>: \<open>libusb_get_active_config_descriptor\<close>;
  \<^item> \<open>open_rc\<close>, \<open>open_handle\<close>: \<open>libusb_open\<close>;
  \<^item> \<open>kernel_driver_active_rc\<close>, \<open>detach_rc\<close>, \<open>claim_rc\<close>, \<open>transfer_rc\<close>: the results
    of \<open>libusb_kernel_driver_active\<close>, \<open>libusb_detach_kernel_driver\<close>,
    \<open>libusb_claim_interface\<close> and \<open>libusb_control_transfer\<close>;
  \<^item> \<open>ssize_t_is_int\<close>: whether the platform's \<open>ssize_t\<close> is the type \<open>int\<close> (it is
    \<open>long\<close> on LP64 platforms), which decides whether a handler for \<open>int\<close> catches a
    thrown \<open>ssize_t\<close>.
\<close>

record usb_world =
  init_rc :: int
  init_ctx :: usb_context
  device_list :: "int \<times> device list"
  descriptor_rc :: "device \<Rightarrow> int"
  descriptor_of :: "device \<Rightarrow> device_descriptor"
  descriptor_stale :: "device \<Rightarrow> device_descriptor"
  config_rc :: "device \<Rightarrow> int"
  config_of :: "device \<Rightarrow> config_descriptor"
  open_rc :: "device \<Rightarrow> int"
  open_handle :: "device \<Rightarrow> dev_handle"
  kernel_driver_active_rc :: "dev_handle option \<Rightarrow> int \<Rightarrow> int"
  detach_rc :: "dev_handle option \<Rightarrow> int \<Rightarrow> int"
  claim_rc :: "dev_handle option \<Rightarrow> int \<Rightarrow> int"
  transfer_rc :: "control_setup \<Rightarrow> int"
  ssize_t_is_int :: bool

text \<open>The observable state: the libusb calls made so far and the lines printed so far.\<close>

record sys =
  calls :: "usb_call list"
  stderr :: "diagnostic list"

definition call :: "usb_call \<Rightarrow> sys \<Rightarrow> sys" where
  "call c s = s\<lparr>calls := calls s @ [c]\<rparr>"

definition eprint :: "diagnostic \<Rightarrow> sys \<Rightarrow> sys" where
  "eprint m s = s\<lparr>stderr := stderr s @ [m]\<rparr>"

text \<open>
  \<open>libusb_init\<close> stores a context only when it succeeds (returns 0); \<open>ctx\<close> is the
  caller's variable before the call.
\<close>

definition libusb_init :: "usb_world \<Rightarrow> usb_context option \<Rightarrow> int \<times> usb_context option" where
  "libusb_init w ctx = (init_rc w, if init_rc w = 0 then Some (init_ctx w) else ctx)"

text \<open>
  \<open>libusb_get_device_descriptor\<close> fills the caller's structure when it succeeds
  (returns 0); otherwise the structure, an uninitialised local variable, keeps the
  indeterminate content it had.
\<close>

definition libusb_get_device_descriptor :: "usb_world \<Rightarrow> device \<Rightarrow> int \<times> device_descriptor" where
  "libusb_get_device_descriptor w device =
     (descriptor_rc w device,
      if descriptor_rc w device = 0 then descriptor_of w device else descriptor_stale w device)"

definition libusb_get_active_config_descriptor :: "usb_world \<Rightarrow> device \<Rightarrow> int \<times> config_descriptor" where
  "libusb_get_active_config_descriptor w device = (config_rc w device, config_of w device)"

text \<open>\<open>libusb_open\<close> stores a handle only when it succeeds (returns 0).\<close>

definition libusb_open :: "usb_world \<Rightarrow> device \<Rightarrow> dev_handle option \<Rightarrow> int \<times> dev_handle option" where
  "libusb_open w device handle =
     (open_rc w device, if open_rc w device = 0 then Some (open_handle w device) else handle)"

section \<open>Exceptions\<close>

text \<open>
  The program throws integers: \<open>throw device_count\<close> in \<open>find_devices\<close> throws an
  \<open>ssize_t\<close>, every other \<open>throw rc\<close> an \<open>int\<close>.
\<close>

datatype exn = Throw_int int | Throw_ssize_t int

section \<open>find_devices\<close>

text \<open>
  The body of the loop over the device array. The result of the descriptor query is
  dropped, as in the source; the comparison reads the structure.
\<close>

primrec scan_devices ::
  "usb_world \<Rightarrow> int \<Rightarrow> int \<Rightarrow> device list \<Rightarrow> device list \<Rightarrow> sys \<Rightarrow> device list \<times> sys" where
  "scan_devices w vendor_id product_id [] result s = (result, s)"
| "scan_devices w vendor_id product_id (device # rest) result s =
     (let descriptor = snd (libusb_get_device_descriptor w device);
          s1 = call (Get_device_descriptor device) s
      in if uint (idVendor descriptor) = vendor_id \<and> uint (idProduct descriptor) = product_id
         then scan_devices w vendor_id product_id rest (result @ [device])
                (call (Ref_device device) s1)
         else scan_devices w vendor_id product_id rest result s1)"

text \<open>
  The loop reads \<open>devices[i]\<close> for \<open>0 \<le> i < device_count\<close>: the first
  \<open>device_count\<close> entries of the array.
\<close>

definition find_devices ::
  "usb_world \<Rightarrow> int \<Rightarrow> int \<Rightarrow> sys \<Rightarrow> (exn + device list) \<times> sys" where
  "find_devices w vendor_id product_id s =
     (let device_count = fst (device_list w);
          devices = take (nat device_count) (snd (device_list w));
          s1 = call Get_device_list s
      in if device_count < 0 then (Inl (Throw_ssize_t device_count), s1)
         else let r = scan_devices w vendor_id product_id devices [] s1
              in (Inr (fst r), call (Free_device_list devices 1) (snd r)))"

section \<open>kvm_device\<close>

record kvm_device =
  device :: device
  handle :: "dev_handle option"
  interface_number :: int
  detached_kernel :: bool

text \<open>
  libusb.h is not part of the repository. Modelled from the spec: the transfer is
  "host-to-device, class-scoped, interface-recipient"; the values are those of libusb.h.
\<close>

definition LIBUSB_ENDPOINT_OUT :: int where "LIBUSB_ENDPOINT_OUT = 0x00"
definition LIBUSB_REQUEST_TYPE_CLASS :: int where "LIBUSB_REQUEST_TYPE_CLASS = 0x20"
definition LIBUSB_RECIPIENT_INTERFACE :: int where "LIBUSB_RECIPIENT_INTERFACE = 0x01"

definition CONTROL_REQUEST_TYPE_OUT :: int where
  "CONTROL_REQUEST_TYPE_OUT =
     LIBUSB_ENDPOINT_OUT OR LIBUSB_REQUEST_TYPE_CLASS OR LIBUSB_RECIPIENT_INTERFACE"

definition HID_SET_REPORT :: int where "HID_SET_REPORT = 0x09"
definition HID_REPORT_TYPE_OUTPUT :: int where "HID_REPORT_TYPE_OUTPUT = 0x02"

text \<open>
  The call of \<open>libusb_control_transfer\<close> in \<open>send_request\<close>; the \<open>int\<close> and \<open>size_t\<close>
  arguments are converted to the parameter types (\<open>uint8_t\<close>, \<open>uint16_t\<close>,
  \<open>unsigned int\<close>).
\<close>

definition request_setup :: "kvm_device \<Rightarrow> 8 word list \<Rightarrow> nat \<Rightarrow> int \<Rightarrow> control_setup" where
  "request_setup this bytes length_arg timeout_ms =
     \<lparr>dev_handle = handle this,
      bmRequestType = word_of_int CONTROL_REQUEST_TYPE_OUT,
      bRequest = word_of_int HID_SET_REPORT,
      wValue = word_of_int (push_bit 8 HID_REPORT_TYPE_OUTPUT OR 0x00),
      wIndex = word_of_int (interface_number this),
      data = bytes,
      wLength = of_nat length_arg,
      timeout = word_of_int timeout_ms\<rparr>"

definition send_request ::
  "usb_world \<Rightarrow> kvm_device \<Rightarrow> 8 word list \<Rightarrow> nat \<Rightarrow> int \<Rightarrow> sys \<Rightarrow> int \<times> sys" where
  "send_request w this bytes length_arg timeout_ms s =
     (let setup = request_setup this bytes length_arg timeout_ms;
          rc = transfer_rc w setup;
          s1 = call (Control_transfer setup) s
      in if rc < 0 then (rc, eprint Write_failed s1)
         else if nat rc \<noteq> length_arg then (- 1, eprint (Short_write rc length_arg) s1)
         else (0, s1))"

definition initialize :: "usb_world \<Rightarrow> kvm_device \<Rightarrow> sys \<Rightarrow> (exn + unit) \<times> sys" where
  "initialize w this s =
     (let r = send_request w this [0x03, 0x00, 0x00, 0x00, 0x00] 5 100 s
      in if fst r < 0 then (Inl (Throw_int (fst r)), snd r) else (Inr (), snd r))"

definition trigger :: "usb_world \<Rightarrow> kvm_device \<Rightarrow> sys \<Rightarrow> int \<times> sys" where
  "trigger w this s = send_request w this [0x03, 0x5c, 0x04, 0x00, 0x00] 5 100 s"

text \<open>The statements after the label \<open>fail\<close> of the constructor.\<close>

definition ctor_fail :: "kvm_device \<Rightarrow> int \<Rightarrow> sys \<Rightarrow> (exn + kvm_device) \<times> sys" where
  "ctor_fail this rc s =
     (let s1 = (if detached_kernel this
                then call (Attach_kernel_driver (handle this) (interface_number this)) s else s);
          s2 = (if handle this \<noteq> None then call (Close_handle (handle this)) s1 else s1)
      in (Inl (Throw_int rc), call (Unref_device (device this)) s2))"

text \<open>
  The constructor from \<open>libusb_claim_interface\<close> on. An exception of \<open>initialize\<close>
  leaves the constructor as it is: no handler and no jump to \<open>fail\<close> stands between.
\<close>

definition ctor_claim :: "usb_world \<Rightarrow> kvm_device \<Rightarrow> sys \<Rightarrow> (exn + kvm_device) \<times> sys" where
  "ctor_claim w this s =
     (let rc = claim_rc w (handle this) (interface_number this);
          s1 = call (Claim_interface (handle this) (interface_number this)) s
      in if rc < 0 then ctor_fail this rc (eprint Claim_failed s1)
         else (case initialize w this s1 of
                 (Inl e, s2) \<Rightarrow> (Inl e, s2)
               | (Inr u, s2) \<Rightarrow> (Inr this, s2)))"

definition kvm_device_ctor ::
  "usb_world \<Rightarrow> device \<Rightarrow> int \<Rightarrow> sys \<Rightarrow> (exn + kvm_device) \<times> sys" where
  "kvm_device_ctor w dev ifn s =
     (let this0 = \<lparr>device = dev, handle = None, interface_number = ifn, detached_kernel = False\<rparr>;
          r = libusb_open w dev (handle this0);
          this = this0\<lparr>handle := snd r\<rparr>;
          s1 = call (Open_device dev) s
      in if fst r < 0 then (Inl (Throw_int (fst r)), call (Unref_device dev) (eprint Open_failed s1))
         else
           (let rc = kernel_driver_active_rc w (handle this) ifn;
                s2 = call (Kernel_driver_active (handle this) ifn) s1
            in if rc < 0 then ctor_fail this rc (eprint Kernel_driver_active_failed s2)
               else if rc \<noteq> 0 then
                 (let rc = detach_rc w (handle this) ifn;
                      s3 = call (Detach_kernel_driver (handle this) ifn) s2
                  in if rc < 0 then ctor_fail this rc s3
                     else ctor_claim w (this\<lparr>detached_kernel := True\<rparr>) s3)
               else ctor_claim w this s2))"

definition kvm_device_dtor :: "kvm_device \<Rightarrow> sys \<Rightarrow> sys" where
  "kvm_device_dtor this s =
     (let s1 = (if detached_kernel this
                then call (Attach_kernel_driver (handle this) (interface_number this)) s else s);
          s2 = call (Close_handle (handle this)) s1
      in call (Unref_device (device this)) s2)"

definition vendor_id :: int where "vendor_id = 0x2101"
definition product_id :: int where "product_id = 0x1406"

definition find_device :: "usb_world \<Rightarrow> sys \<Rightarrow> (exn + kvm_device option) \<times> sys" where
  "find_device w s =
     (case find_devices w vendor_id product_id s of
        (Inl e, s1) \<Rightarrow> (Inl e, s1)
      | (Inr devices, s1) \<Rightarrow>
          if length devices = 0 then (Inr None, eprint No_device s1)
          else if length devices > 1 then (Inr None, eprint Multiple_devices s1)
          else
            (let dev = devices ! 0;
                 r = libusb_get_active_config_descriptor w dev;
                 config = snd r;
                 s2 = call (Get_active_config_descriptor dev) s1
             in if fst r \<noteq> 0 then (Inr None, eprint (Config_failed (fst r)) s2)
                else if bNumInterfaces config \<noteq> 2
                then (Inr None, eprint (Bad_interface_count (bNumInterfaces config)) s2)
                else
                  (let interfaces = interface config ! 1
                   in if num_altsetting interfaces \<noteq> 1
                      then (Inr None, eprint (Bad_altsetting_count (num_altsetting interfaces)) s2)
                      else
                        (let ifn = uint (bInterfaceNumber (altsetting interfaces ! 0));
                             s3 = call (Free_config_descriptor dev) s2
                         in case kvm_device_ctor w dev ifn s3 of
                              (Inl e, s4) \<Rightarrow> (Inl e, s4)
                            | (Inr k, s4) \<Rightarrow> (Inr (Some k), s4)))))"

section \<open>main\<close>

text \<open>
  How the process ends: \<open>Exit_code rc\<close> is a return from \<open>main\<close>; \<open>Terminated\<close> is
  \<open>std::terminate\<close>, called for an exception that no handler catches.
\<close>

datatype outcome = Exit_code int | Terminated

text \<open>The handler \<open>catch (int libusb_error)\<close> and the statements after the try block.\<close>

definition main_catch :: "usb_context option \<Rightarrow> int \<Rightarrow> sys \<Rightarrow> outcome \<times> sys" where
  "main_catch ctx libusb_error s =
     (let s1 = (if libusb_error \<noteq> 0 then eprint (Libusb_error libusb_error) s else s);
          s2 = (if ctx \<noteq> None then call (Exit ctx) s1 else s1)
      in (Exit_code 1, s2))"

text \<open>
  The \<open>unique_ptr\<close> \<open>kvm\<close> is a local of the try block: when it holds a session, the
  destructor runs at the end of the block, before \<open>libusb_exit\<close>. The result of
  \<open>trigger\<close> is dropped, as in the source.
\<close>

definition main :: "usb_world \<Rightarrow> sys \<Rightarrow> outcome \<times> sys" where
  "main w s =
     (let r = libusb_init w None;
          ctx = snd r;
          s1 = call Init s
      in if fst r \<noteq> 0 then (Exit_code 1, eprint Init_failed s1)
         else
           (case find_device w s1 of
              (Inr (Some kvm), s2) \<Rightarrow>
                (let s3 = kvm_device_dtor kvm (snd (trigger w kvm s2))
                 in (Exit_code 0, if ctx \<noteq> None then call (Exit ctx) s3 else s3))
            | (Inr None, s2) \<Rightarrow>
                (Exit_code 1, if ctx \<noteq> None then call (Exit ctx) s2 else s2)
            | (Inl (Throw_int e), s2) \<Rightarrow> main_catch ctx e s2
            | (Inl (Throw_ssize_t e), s2) \<Rightarrow>
                if ssize_t_is_int w then main_catch ctx e s2 else (Terminated, s2)))"

section \<open>Auxiliary definitions for the statements\<close>

text \<open>
  The condition of the \<open>if\<close> statement in the loop of \<open>find_devices\<close>, for the
  descriptor structure as the query left it.
\<close>

definition descriptor_matches :: "usb_world \<Rightarrow> int \<Rightarrow> int \<Rightarrow> device \<Rightarrow> bool" where
  "descriptor_matches w vid pid dev =
     (let descriptor = snd (libusb_get_device_descriptor w dev)
      in uint (idVendor descriptor) = vid \<and> uint (idProduct descriptor) = pid)"

text \<open>The libusb calls of one iteration of the loop.\<close>

definition scan_calls :: "usb_world \<Rightarrow> int \<Rightarrow> int \<Rightarrow> device \<Rightarrow> usb_call list" where
  "scan_calls w vid pid dev =
     Get_device_descriptor dev # (if descriptor_matches w vid pid dev then [Ref_device dev] else [])"

text \<open>The devices the loop visits, in the order of the enumeration.\<close>

definition enumerated :: "usb_world \<Rightarrow> device list" where
  "enumerated w = take (nat (fst (device_list w))) (snd (device_list w))"

text \<open>The control transfer of \<open>trigger\<close>, written out.\<close>

definition trigger_setup :: "kvm_device \<Rightarrow> control_setup" where
  "trigger_setup this =
     \<lparr>dev_handle = handle this, bmRequestType = 0x21, bRequest = 0x09, wValue = 0x0200,
      wIndex = word_of_int (interface_number this), data = [0x03, 0x5c, 0x04, 0x00, 0x00],
      wLength = 5, timeout = 100\<rparr>"

text \<open>The comparison of a descriptor with the identifiers, as the loop writes it.\<close>

definition ids_match :: "device_descriptor \<Rightarrow> int \<Rightarrow> int \<Rightarrow> bool" where
  "ids_match descriptor vid pid =
     (uint (idVendor descriptor) = vid \<and> uint (idProduct descriptor) = pid)"

text \<open>The calls that open a device or claim an interface.\<close>

definition opens_or_claims :: "usb_call \<Rightarrow> bool" where
  "opens_or_claims c =
     (case c of Open_device d \<Rightarrow> True | Claim_interface h i \<Rightarrow> True | _ \<Rightarrow> False)"

text \<open>The control transfer of \<open>initialize\<close>, written out.\<close>

definition init_setup :: "kvm_device \<Rightarrow> control_setup" where
  "init_setup this =
     \<lparr>dev_handle = handle this, bmRequestType = 0x21, bRequest = 0x09, wValue = 0x0200,
      wIndex = word_of_int (interface_number this), data = [0x03, 0x00, 0x00, 0x00, 0x00],
      wLength = 5, timeout = 100\<rparr>"

subsection \<open>Concrete inputs\<close>

text \<open>
  Three attached devices, of which device 7 is the KVM switch; its second interface has
  one alternate setting with interface number 3; a kernel driver is bound to it; every
  libusb call succeeds and a control transfer writes all its bytes.
\<close>

definition kvm_world :: usb_world where
  "kvm_world =
     \<lparr>init_rc = 0, init_ctx = 1,
      device_list = (3, [5, 7, 8]),
      descriptor_rc = (\<lambda>d. 0),
      descriptor_of = (\<lambda>d. if d = 7 then \<lparr>idVendor = 0x2101, idProduct = 0x1406\<rparr>
                              else \<lparr>idVendor = 0x1d6b, idProduct = 0x0002\<rparr>),
      descriptor_stale = (\<lambda>d. \<lparr>idVendor = 0x2101, idProduct = 0x1406\<rparr>),
      config_rc = (\<lambda>d. 0),
      config_of = (\<lambda>d. \<lparr>interface = [\<lparr>altsetting = [\<lparr>bInterfaceNumber = 0\<rparr>]\<rparr>,
                                         \<lparr>altsetting = [\<lparr>bInterfaceNumber = 3\<rparr>]\<rparr>]\<rparr>),
      open_rc = (\<lambda>d. 0),
      open_handle = (\<lambda>d. 9),
      kernel_driver_active_rc = (\<lambda>h i. 1),
      detach_rc = (\<lambda>h i. 0),
      claim_rc = (\<lambda>h i. 0),
      transfer_rc = (\<lambda>setup. uint (wLength setup)),
      ssize_t_is_int = False\<rparr>"

definition sys0 :: sys where
  "sys0 = \<lparr>calls = [], stderr = []\<rparr>"

text \<open>The session that \<open>find_device\<close> constructs in \<open>kvm_world\<close>.\<close>

definition kvm_session :: kvm_device where
  "kvm_session = \<lparr>device = 7, handle = Some 9, interface_number = 3, detached_kernel = True\<rparr>"

text \<open>Two attached KVM switches, 6 and 7.\<close>

definition two_kvm_world :: usb_world where
  "two_kvm_world =
     kvm_world\<lparr>device_list := (2, [6, 7]),
                descriptor_of := (\<lambda>d. \<lparr>idVendor = 0x2101, idProduct = 0x1406\<rparr>)\<rparr>"

text \<open>A configuration with three interfaces.\<close>

definition three_interfaces :: config_descriptor where
  "three_interfaces =
     \<lparr>interface = [\<lparr>altsetting = [\<lparr>bInterfaceNumber = 0\<rparr>]\<rparr>,
                  \<lparr>altsetting = [\<lparr>bInterfaceNumber = 1\<rparr>]\<rparr>,
                  \<lparr>altsetting = [\<lparr>bInterfaceNumber = 2\<rparr>]\<rparr>]\<rparr>"

text \<open>The initialization transfer succeeds, the trigger transfer fails with -1.\<close>

definition trigger_fails_world :: usb_world where
  "trigger_fails_world =
     kvm_world\<lparr>transfer_rc :=
       (\<lambda>setup. if data setup = [0x03, 0x5c, 0x04, 0x00, 0x00] then - 1 else 5)\<rparr>"

section \<open>Basic facts\<close>

lemma calls_call: "calls (call c s) = calls s @ [c]"
  by (simp add: call_def)

lemma stderr_call: "stderr (call c s) = stderr s"
  by (simp add: call_def)

lemma calls_eprint: "calls (eprint m s) = calls s"
  by (simp add: eprint_def)

lemma stderr_eprint: "stderr (eprint m s) = stderr s @ [m]"
  by (simp add: eprint_def)

lemmas sys_simps = calls_call stderr_call calls_eprint stderr_eprint

lemma request_type: "CONTROL_REQUEST_TYPE_OUT = 0x21"
  by (simp add: CONTROL_REQUEST_TYPE_OUT_def LIBUSB_ENDPOINT_OUT_def
        LIBUSB_REQUEST_TYPE_CLASS_def LIBUSB_RECIPIENT_INTERFACE_def)

lemma request_setup_payload:
  "request_setup this bytes 5 100 =
     \<lparr>dev_handle = handle this, bmRequestType = 0x21, bRequest = 0x09, wValue = 0x0200,
      wIndex = word_of_int (interface_number this), data = bytes, wLength = 5, timeout = 100\<rparr>"
  by (simp add: request_setup_def request_type HID_SET_REPORT_def HID_REPORT_TYPE_OUTPUT_def)

section \<open>send_request and trigger\<close>

lemma send_request_calls:
  "calls (snd (send_request w this bytes n t s)) =
     calls s @ [Control_transfer (request_setup this bytes n t)]"
  by (simp add: send_request_def Let_def sys_simps)

lemma send_request_zero:
  "(fst (send_request w this bytes n t s) = 0) =
     (transfer_rc w (request_setup this bytes n t) = int n)"
  by (auto simp: send_request_def Let_def)

text \<open>
  C4, as amended. \<open>send_request\<close> makes one control transfer and returns zero exactly
  when the transport reports a byte count equal to the payload length. A negative result
  is returned as it is and logged with the fixed line "failed to write data in
  send_request", which carries no byte count. A count that is not negative and differs
  from the length (4 or 6 for a payload of 5 bytes) returns -1 and is logged with the
  observed and the expected byte count. Nothing is logged on success.
\<close>

theorem send_request_exact:
  "send_request w this bytes n t s = (r, s') \<Longrightarrow>
     calls s' = calls s @ [Control_transfer (request_setup this bytes n t)] \<and>
     (r = 0) = (transfer_rc w (request_setup this bytes n t) = int n) \<and>
     (transfer_rc w (request_setup this bytes n t) < 0 \<longrightarrow>
        r = transfer_rc w (request_setup this bytes n t) \<and> stderr s' = stderr s @ [Write_failed]) \<and>
     (0 \<le> transfer_rc w (request_setup this bytes n t) \<and>
      transfer_rc w (request_setup this bytes n t) \<noteq> int n \<longrightarrow>
        r = - 1 \<and>
        stderr s' = stderr s @ [Short_write (transfer_rc w (request_setup this bytes n t)) n]) \<and>
     (transfer_rc w (request_setup this bytes n t) = int n \<longrightarrow> stderr s' = stderr s)"
  by (auto simp: send_request_def Let_def sys_simps split: if_splits)

text \<open>
  The theorem at a transfer that reports 6 bytes for the 5-byte trigger payload: the
  request fails with -1 and the line printed carries both counts.
\<close>

theorem send_request_exact_witness:
  "transfer_rc (kvm_world\<lparr>transfer_rc := (\<lambda>setup. 6)\<rparr>)
     (request_setup kvm_session [0x03, 0x5c, 0x04, 0x00, 0x00] 5 100) = 6 \<and>
   fst (send_request (kvm_world\<lparr>transfer_rc := (\<lambda>setup. 6)\<rparr>) kvm_session
          [0x03, 0x5c, 0x04, 0x00, 0x00] 5 100 sys0) = - 1 \<and>
   stderr (snd (send_request (kvm_world\<lparr>transfer_rc := (\<lambda>setup. 6)\<rparr>) kvm_session
          [0x03, 0x5c, 0x04, 0x00, 0x00] 5 100 sys0)) = [Short_write 6 5]"
  using send_request_exact [OF surjective_pairing,
      of "kvm_world\<lparr>transfer_rc := (\<lambda>setup. 6)\<rparr>" kvm_session
         "[0x03, 0x5c, 0x04, 0x00, 0x00]" 5 100 sys0]
  by (simp add: sys0_def)

text \<open>
  C4 as stated fails in its logging clause: a negative result (-1) is logged by
  \<open>Write_failed\<close>, a line without byte counts, and a short write (4 of 5 bytes) by
  \<open>Short_write 4 5\<close>, the line with the observed and the expected count.
\<close>

theorem send_request_log_counterexample:
  "stderr (snd (send_request (kvm_world\<lparr>transfer_rc := (\<lambda>setup. - 1)\<rparr>) kvm_session
          [0x03, 0x5c, 0x04, 0x00, 0x00] 5 100 sys0)) = [Write_failed] \<and>
   stderr (snd (send_request (kvm_world\<lparr>transfer_rc := (\<lambda>setup. 4)\<rparr>) kvm_session
          [0x03, 0x5c, 0x04, 0x00, 0x00] 5 100 sys0)) = [Short_write 4 5]"
  by (simp add: send_request_def Let_def sys_simps sys0_def)

text \<open>
  C9. \<open>trigger\<close> makes exactly one libusb call: the HID Set-Report (request 0x09)
  class transfer to the interface (request type 0x21), report type Output and report id 0
  (value 0x0200), index the session's interface number, with the five bytes
  03 5C 04 00 00. Its result is zero exactly when the transport reports 5 bytes, so a
  failed transfer gives a non-zero result. It closes, releases and reattaches nothing and
  does not change the session: a second \<open>trigger\<close> on the same session sends the same
  transfer again.
\<close>

theorem trigger_sends_payload:
  "calls (snd (trigger w this s)) = calls s @ [Control_transfer (trigger_setup this)] \<and>
   (fst (trigger w this s) = 0) = (transfer_rc w (trigger_setup this) = 5) \<and>
   calls (snd (trigger w this (snd (trigger w this s)))) =
     calls s @ [Control_transfer (trigger_setup this), Control_transfer (trigger_setup this)]"
  using send_request_zero [of w this "[0x03, 0x5c, 0x04, 0x00, 0x00]" 5 100 s]
  by (simp add: trigger_def send_request_calls request_setup_payload trigger_setup_def)

section \<open>The enumeration\<close>

lemma descriptor_matches_ids:
  "descriptor_matches w vid pid d =
     ids_match (if descriptor_rc w d = 0 then descriptor_of w d else descriptor_stale w d) vid pid"
  by (simp add: descriptor_matches_def ids_match_def libusb_get_device_descriptor_def Let_def)

lemma scan_devices_result:
  "fst (scan_devices w vid pid devs acc s) = acc @ filter (descriptor_matches w vid pid) devs"
  by (induction devs arbitrary: acc s) (simp_all add: Let_def descriptor_matches_def)

lemma scan_devices_calls:
  "calls (snd (scan_devices w vid pid devs acc s)) =
     calls s @ concat (map (scan_calls w vid pid) devs)"
  by (induction devs arbitrary: acc s)
     (simp_all add: Let_def descriptor_matches_def scan_calls_def sys_simps)

lemma scan_devices_stderr: "stderr (snd (scan_devices w vid pid devs acc s)) = stderr s"
  by (induction devs arbitrary: acc s) (simp_all add: Let_def sys_simps)

lemma scan_calls_refs:
  "count_list (concat (map (scan_calls w vid pid) devs)) (Ref_device d) =
     count_list (filter (descriptor_matches w vid pid) devs) d"
  by (induction devs) (simp_all add: scan_calls_def)

lemma scan_calls_unrefs:
  "count_list (concat (map (scan_calls w vid pid) devs)) (Unref_device d) = 0"
  by (induction devs) (simp_all add: scan_calls_def)

lemma find_devices_error:
  "fst (device_list w) < 0 \<Longrightarrow>
   find_devices w vid pid s = (Inl (Throw_ssize_t (fst (device_list w))), call Get_device_list s)"
  by (simp add: find_devices_def Let_def)

lemma find_devices_result:
  "0 \<le> fst (device_list w) \<Longrightarrow>
   fst (find_devices w vid pid s) = Inr (filter (descriptor_matches w vid pid) (enumerated w))"
  by (simp add: find_devices_def Let_def enumerated_def scan_devices_result)

lemma find_devices_calls:
  "0 \<le> fst (device_list w) \<Longrightarrow>
   calls (snd (find_devices w vid pid s)) =
     calls s @ [Get_device_list] @ concat (map (scan_calls w vid pid) (enumerated w)) @
     [Free_device_list (enumerated w) 1]"
  by (simp add: find_devices_def Let_def enumerated_def scan_devices_calls sys_simps)

lemma find_devices_stderr: "stderr (snd (find_devices w vid pid s)) = stderr s"
  by (simp add: find_devices_def Let_def scan_devices_stderr sys_simps)

text \<open>
  C8. \<open>find_devices\<close> returns exactly the enumerated devices whose descriptor, as the
  query stored it, carries the given vendor and product identifiers (for a device whose
  query succeeds that is the device's own descriptor), in the order of the enumeration,
  and the empty list when none matches. It calls \<open>libusb_ref_device\<close> once for each
  returned device and for no other, releases no device reference, and frees the
  enumeration snapshot after the scan. When the enumeration reports a negative count, it
  throws that count right after the enumeration call: no descriptor is read, no
  reference is taken, no list is returned.
\<close>

theorem find_devices_matching:
  "(0 \<le> fst (device_list w) \<longrightarrow>
      fst (find_devices w vid pid s) =
        Inr (filter (descriptor_matches w vid pid) (enumerated w)) \<and>
      calls (snd (find_devices w vid pid s)) =
        calls s @ [Get_device_list] @
        concat (map (\<lambda>d. Get_device_descriptor d #
                       (if descriptor_matches w vid pid d then [Ref_device d] else []))
                  (enumerated w)) @
        [Free_device_list (enumerated w) 1] \<and>
      (\<forall>d. count_list (calls (snd (find_devices w vid pid s))) (Ref_device d) =
             count_list (calls s) (Ref_device d) +
             count_list (filter (descriptor_matches w vid pid) (enumerated w)) d \<and>
           count_list (calls (snd (find_devices w vid pid s))) (Unref_device d) =
             count_list (calls s) (Unref_device d))) \<and>
   (\<forall>d. descriptor_rc w d = 0 \<longrightarrow>
        descriptor_matches w vid pid d =
          (uint (idVendor (descriptor_of w d)) = vid \<and> uint (idProduct (descriptor_of w d)) = pid)) \<and>
   (fst (device_list w) < 0 \<longrightarrow>
      find_devices w vid pid s =
        (Inl (Throw_ssize_t (fst (device_list w))), call Get_device_list s))"
proof -
  have m: "descriptor_matches w vid pid d =
             (uint (idVendor (descriptor_of w d)) = vid \<and> uint (idProduct (descriptor_of w d)) = pid)"
    if "descriptor_rc w d = 0" for d
    using that by (simp add: descriptor_matches_ids ids_match_def)
  have mp: "map (scan_calls w vid pid) (enumerated w) =
              map (\<lambda>d. Get_device_descriptor d #
                         (if descriptor_matches w vid pid d then [Ref_device d] else []))
                (enumerated w)"
    by (rule map_cong) (simp_all add: scan_calls_def)
  show ?thesis
  proof (cases "0 \<le> fst (device_list w)")
    case True
    have r: "fst (find_devices w vid pid s) =
               Inr (filter (descriptor_matches w vid pid) (enumerated w))"
      by (rule find_devices_result [OF True])
    have c: "calls (snd (find_devices w vid pid s)) =
               calls s @ [Get_device_list] @ concat (map (scan_calls w vid pid) (enumerated w)) @
               [Free_device_list (enumerated w) 1]"
      by (rule find_devices_calls [OF True])
    have n: "count_list (calls (snd (find_devices w vid pid s))) (Ref_device d) =
               count_list (calls s) (Ref_device d) +
               count_list (filter (descriptor_matches w vid pid) (enumerated w)) d"
      for d
      by (simp add: c scan_calls_refs)
    have u: "count_list (calls (snd (find_devices w vid pid s))) (Unref_device d) =
               count_list (calls s) (Unref_device d)" for d
      by (simp add: c scan_calls_unrefs)
    from True r n u m show ?thesis by (simp add: c mp)
  next
    case False
    with m show ?thesis by (simp add: find_devices_error)
  qed
qed

text \<open>The theorem in \<open>kvm_world\<close>: of the devices 5, 7 and 8 only 7 is returned.\<close>

theorem find_devices_matching_witness:
  "enumerated kvm_world = [5, 7, 8] \<and>
   map (descriptor_rc kvm_world) [5, 7, 8] = [0, 0, 0] \<and>
   map (descriptor_matches kvm_world 0x2101 0x1406) [5, 7, 8] = [False, True, False] \<and>
   fst (find_devices kvm_world 0x2101 0x1406 sys0) = Inr [7] \<and>
   calls (snd (find_devices kvm_world 0x2101 0x1406 sys0)) =
     [Get_device_list, Get_device_descriptor 5, Get_device_descriptor 7, Ref_device 7,
      Get_device_descriptor 8, Free_device_list [5, 7, 8] 1] \<and>
   count_list (calls (snd (find_devices kvm_world 0x2101 0x1406 sys0))) (Ref_device 7) = 1"
proof -
  have a: "0 \<le> fst (device_list kvm_world)"
    by (simp add: kvm_world_def)
  have e: "enumerated kvm_world = [5, 7, 8]"
    by (simp add: enumerated_def kvm_world_def)
  have z: "map (descriptor_rc kvm_world) [5, 7, 8] = [0, 0, 0]"
    by (simp add: kvm_world_def)
  note t = find_devices_matching [of kvm_world "0x2101" "0x1406" sys0]
  have d: "descriptor_matches kvm_world 0x2101 0x1406 5 = False"
          "descriptor_matches kvm_world 0x2101 0x1406 7 = True"
          "descriptor_matches kvm_world 0x2101 0x1406 8 = False"
    using t z by (simp_all add: kvm_world_def)
  from t a have
    "fst (find_devices kvm_world 0x2101 0x1406 sys0) =
       Inr (filter (descriptor_matches kvm_world 0x2101 0x1406) (enumerated kvm_world))"
    "calls (snd (find_devices kvm_world 0x2101 0x1406 sys0)) =
       calls sys0 @ [Get_device_list] @
       concat (map (\<lambda>d. Get_device_descriptor d #
                      (if descriptor_matches kvm_world 0x2101 0x1406 d then [Ref_device d] else []))
                 (enumerated kvm_world)) @
       [Free_device_list (enumerated kvm_world) 1]"
    by blast+
  then have "fst (find_devices kvm_world 0x2101 0x1406 sys0) = Inr [7]"
    "calls (snd (find_devices kvm_world 0x2101 0x1406 sys0)) =
       [Get_device_list, Get_device_descriptor 5, Get_device_descriptor 7, Ref_device 7,
        Get_device_descriptor 8, Free_device_list [5, 7, 8] 1]"
    by (simp_all add: e d sys0_def)
  with e z d show ?thesis by simp
qed

text \<open>
  C10. \<open>find_devices\<close> drops the result of the descriptor query. For an enumerated
  device whose query fails, the call still returns a list (no error path is taken), and
  the device is in the list exactly when the content that the failed query left in the
  descriptor structure carries the identifiers.
\<close>

theorem find_devices_ignores_query_failure:
  assumes "0 \<le> fst (device_list w)"
      and "d \<in> set (enumerated w)"
      and "descriptor_rc w d \<noteq> 0"
  shows "fst (find_devices w vid pid s) =
           Inr (filter (descriptor_matches w vid pid) (enumerated w)) \<and>
         (d \<in> set (filter (descriptor_matches w vid pid) (enumerated w))) =
           ids_match (descriptor_stale w d) vid pid"
  using assms by (simp add: find_devices_result descriptor_matches_ids)

text \<open>
  The theorem in \<open>kvm_world\<close> with a failing query for device 5, which is not a KVM
  switch: the stale structure holds the KVM identifiers, and device 5 is returned.
\<close>

theorem find_devices_ignores_query_failure_witness:
  "0 \<le> fst (device_list (kvm_world\<lparr>descriptor_rc := (\<lambda>d. if d = 5 then - 1 else 0)\<rparr>)) \<and>
   5 \<in> set (enumerated (kvm_world\<lparr>descriptor_rc := (\<lambda>d. if d = 5 then - 1 else 0)\<rparr>)) \<and>
   descriptor_rc (kvm_world\<lparr>descriptor_rc := (\<lambda>d. if d = 5 then - 1 else 0)\<rparr>) 5 \<noteq> 0 \<and>
   fst (find_devices (kvm_world\<lparr>descriptor_rc := (\<lambda>d. if d = 5 then - 1 else 0)\<rparr>)
          0x2101 0x1406 sys0) = Inr [5, 7]"
proof -
  let ?w = "kvm_world\<lparr>descriptor_rc := (\<lambda>d. if d = 5 then - 1 else 0)\<rparr>"
  have a: "0 \<le> fst (device_list ?w)" by (simp add: kvm_world_def)
  have e: "enumerated ?w = [5, 7, 8]" by (simp add: enumerated_def kvm_world_def)
  have b: "5 \<in> set (enumerated ?w)" by (simp add: e)
  have c: "descriptor_rc ?w 5 \<noteq> 0" by simp
  have f: "filter (descriptor_matches ?w 0x2101 0x1406) (enumerated ?w) = [5, 7]"
    by (simp add: enumerated_def descriptor_matches_ids ids_match_def kvm_world_def)
  have "fst (find_devices ?w 0x2101 0x1406 sys0) =
          Inr (filter (descriptor_matches ?w 0x2101 0x1406) (enumerated ?w))"
    using find_devices_ignores_query_failure [OF a b c, of "0x2101" "0x1406" sys0]
    by (rule conjunct1)
  then have "fst (find_devices ?w 0x2101 0x1406 sys0) = Inr [5, 7]"
    by (simp only: f)
  with a b c show ?thesis by blast
qed

lemma find_devices_no_open:
  "filter opens_or_claims (drop (length (calls s)) (calls (snd (find_devices w vid pid s)))) = []"
proof (cases "0 \<le> fst (device_list w)")
  case True
  have "filter opens_or_claims (concat (map (scan_calls w vid pid) devs)) = []" for devs
    by (induction devs) (simp_all add: scan_calls_def opens_or_claims_def)
  then show ?thesis
    by (simp add: find_devices_calls [OF True] opens_or_claims_def)
next
  case False
  then show ?thesis
    by (simp add: find_devices_error sys_simps opens_or_claims_def)
qed

lemma find_device_not_one:
  assumes "find_devices w vendor_id product_id s = (Inr devs, s1)" and "length devs \<noteq> 1"
  shows "find_device w s =
           (Inr None, eprint (if length devs = 0 then No_device else Multiple_devices) s1)"
  using assms by (cases devs) (auto simp: find_device_def)

text \<open>
  C7. When the enumeration succeeds and the number of devices matching vendor 0x2101 and
  product 0x1406 is zero or at least two, \<open>find_device\<close> returns no session; it prints
  the line for "no device" or for "multiple devices", makes no libusb call beyond those
  of \<open>find_devices\<close>, and so opens no device and claims no interface.
\<close>

theorem find_device_refuses_ambiguity:
  assumes "0 \<le> fst (device_list w)"
      and "length (filter (descriptor_matches w 0x2101 0x1406) (enumerated w)) = 0 \<or>
           2 \<le> length (filter (descriptor_matches w 0x2101 0x1406) (enumerated w))"
  shows "fst (find_device w s) = Inr None \<and>
         stderr (snd (find_device w s)) =
           stderr s @ [if filter (descriptor_matches w 0x2101 0x1406) (enumerated w) = []
                       then No_device else Multiple_devices] \<and>
         calls (snd (find_device w s)) = calls (snd (find_devices w 0x2101 0x1406 s)) \<and>
         filter opens_or_claims (drop (length (calls s)) (calls (snd (find_device w s)))) = []"
proof -
  let ?devs = "filter (descriptor_matches w 0x2101 0x1406) (enumerated w)"
  let ?s1 = "snd (find_devices w vendor_id product_id s)"
  have ids: "vendor_id = 0x2101" "product_id = 0x1406"
    by (simp_all add: vendor_id_def product_id_def)
  have "fst (find_devices w vendor_id product_id s) = Inr ?devs"
    using find_devices_result [OF assms(1), of vendor_id product_id s] by (simp add: ids)
  then have fd: "find_devices w vendor_id product_id s = (Inr ?devs, ?s1)"
    by (simp add: prod_eq_iff)
  from assms(2) have ne: "length ?devs \<noteq> 1" by auto
  have r: "find_device w s =
             (Inr None, eprint (if length ?devs = 0 then No_device else Multiple_devices) ?s1)"
    by (rule find_device_not_one [OF fd ne])
  have no: "filter opens_or_claims (drop (length (calls s)) (calls ?s1)) = []"
    by (rule find_devices_no_open)
  show ?thesis
    using no by (simp add: r sys_simps find_devices_stderr ids)
qed

text \<open>The theorem for an enumeration that lists the KVM switch 7 twice.\<close>

theorem find_device_refuses_ambiguity_witness:
  "0 \<le> fst (device_list (kvm_world\<lparr>device_list := (3, [7, 8, 7])\<rparr>)) \<and>
   2 \<le> length (filter (descriptor_matches (kvm_world\<lparr>device_list := (3, [7, 8, 7])\<rparr>) 0x2101 0x1406)
                (enumerated (kvm_world\<lparr>device_list := (3, [7, 8, 7])\<rparr>))) \<and>
   fst (find_device (kvm_world\<lparr>device_list := (3, [7, 8, 7])\<rparr>) sys0) = Inr None \<and>
   stderr (snd (find_device (kvm_world\<lparr>device_list := (3, [7, 8, 7])\<rparr>) sys0)) = [Multiple_devices]"
proof -
  let ?w = "kvm_world\<lparr>device_list := (3, [7, 8, 7])\<rparr>"
  have a: "0 \<le> fst (device_list ?w)" by simp
  have f: "filter (descriptor_matches ?w 0x2101 0x1406) (enumerated ?w) = [7, 7]"
    by (simp add: enumerated_def descriptor_matches_ids ids_match_def kvm_world_def)
  have b: "length (filter (descriptor_matches ?w 0x2101 0x1406) (enumerated ?w)) = 0 \<or>
           2 \<le> length (filter (descriptor_matches ?w 0x2101 0x1406) (enumerated ?w))"
    by (simp add: f)
  show ?thesis
    using find_device_refuses_ambiguity [OF a b, of sys0] a by (simp add: f sys0_def)
qed

section \<open>Construction and destruction\<close>

lemma initialize_calls:
  "calls (snd (initialize w this s)) = calls s @ [Control_transfer (init_setup this)]"
  by (simp add: initialize_def Let_def send_request_calls request_setup_payload init_setup_def)

lemma initialize_ok:
  "(fst (initialize w this s) = Inr ()) = (transfer_rc w (init_setup this) = 5)"
  by (auto simp: initialize_def Let_def send_request_def request_setup_payload init_setup_def)

lemma ctor_fail_throws: "fst (ctor_fail this rc s) = Inl (Throw_int rc)"
  by (simp add: ctor_fail_def Let_def)

lemma ctor_claim_success:
  assumes "ctor_claim w k0 s = (Inr k, s')"
  shows "k = k0"
    and "0 \<le> claim_rc w (handle k0) (interface_number k0)"
    and "transfer_rc w (init_setup k0) = 5"
    and "calls s' = calls s @ [Claim_interface (handle k0) (interface_number k0),
                               Control_transfer (init_setup k0)]"
proof -
  let ?s1 = "call (Claim_interface (handle k0) (interface_number k0)) s"
  have nf: "\<not> claim_rc w (handle k0) (interface_number k0) < 0"
    using assms ctor_fail_throws [of k0 "claim_rc w (handle k0) (interface_number k0)"
        "eprint Claim_failed ?s1"]
    by (auto simp: ctor_claim_def Let_def)
  then show "0 \<le> claim_rc w (handle k0) (interface_number k0)" by simp
  from assms nf have c:
    "(case initialize w k0 ?s1 of (Inl e, s2) \<Rightarrow> (Inl e, s2) | (Inr u, s2) \<Rightarrow> (Inr k0, s2)) =
       (Inr k, s')"
    by (simp add: ctor_claim_def Let_def)
  then obtain u where i: "initialize w k0 ?s1 = (Inr u, s')" and "k = k0"
    by (auto split: prod.splits sum.splits)
  then show "k = k0" by simp
  from i have "fst (initialize w k0 ?s1) = Inr ()" by simp
  then show "transfer_rc w (init_setup k0) = 5" by (simp add: initialize_ok)
  from i have "calls s' = calls (snd (initialize w k0 ?s1))" by simp
  then show "calls s' = calls s @ [Claim_interface (handle k0) (interface_number k0),
                               Control_transfer (init_setup k0)]"
    by (simp add: initialize_calls sys_simps)
qed

lemma ctor_success:
  assumes "kvm_device_ctor w dev ifn s = (Inr k, s')"
  shows "device k = dev" and "interface_number k = ifn"
    and "handle k = snd (libusb_open w dev None)"
    and "0 \<le> open_rc w dev"
    and "0 \<le> kernel_driver_active_rc w (handle k) ifn"
    and "detached_kernel k = (0 < kernel_driver_active_rc w (handle k) ifn)"
    and "detached_kernel k \<Longrightarrow> 0 \<le> detach_rc w (handle k) ifn"
    and "0 \<le> claim_rc w (handle k) ifn"
    and "transfer_rc w (init_setup k) = 5"
    and "calls s' = calls s @ [Open_device dev, Kernel_driver_active (handle k) ifn] @
           (if detached_kernel k then [Detach_kernel_driver (handle k) ifn] else []) @
           [Claim_interface (handle k) ifn, Control_transfer (init_setup k)]"
proof -
  let ?h = "snd (libusb_open w dev None)"
  let ?k0 = "\<lparr>device = dev, handle = ?h, interface_number = ifn, detached_kernel = False\<rparr>"
  let ?s1 = "call (Open_device dev) s"
  let ?s2 = "call (Kernel_driver_active ?h ifn) ?s1"
  let ?s3 = "call (Detach_kernel_driver ?h ifn) ?s2"
  let ?a = "kernel_driver_active_rc w ?h ifn"
  have o: "\<not> open_rc w dev < 0"
    using assms by (auto simp: kvm_device_ctor_def Let_def libusb_open_def)
  have a: "\<not> ?a < 0"
    using assms o ctor_fail_throws [of ?k0 ?a "eprint Kernel_driver_active_failed ?s2"]
    by (auto simp: kvm_device_ctor_def Let_def libusb_open_def split: if_splits)
  have d: "?a \<noteq> 0 \<Longrightarrow> \<not> detach_rc w ?h ifn < 0"
    using assms o a ctor_fail_throws [of ?k0 "detach_rc w ?h ifn" ?s3]
    by (auto simp: kvm_device_ctor_def Let_def libusb_open_def split: if_splits)
  have c: "ctor_claim w (?k0\<lparr>detached_kernel := (?a \<noteq> 0)\<rparr>) (if ?a \<noteq> 0 then ?s3 else ?s2) = (Inr k, s')"
    using assms o a d
    by (auto simp: kvm_device_ctor_def Let_def libusb_open_def split: if_splits)
  note cs = ctor_claim_success [OF c]
  have k: "k = \<lparr>device = dev, handle = ?h, interface_number = ifn, detached_kernel = (?a \<noteq> 0)\<rparr>"
    using cs(1) by simp
  show "device k = dev" "interface_number k = ifn" "handle k = ?h" by (simp_all add: k)
  show "0 \<le> open_rc w dev" using o by simp
  show "0 \<le> kernel_driver_active_rc w (handle k) ifn" using a by (simp add: k)
  show "detached_kernel k = (0 < kernel_driver_active_rc w (handle k) ifn)"
    using a by (auto simp: k)
  show "0 \<le> detach_rc w (handle k) ifn" if "detached_kernel k"
    using that d by (simp add: k)
  show "0 \<le> claim_rc w (handle k) ifn" using cs(2) by (simp add: k)
  show "transfer_rc w (init_setup k) = 5" using cs(3) by (simp add: k)
  show "calls s' = calls s @ [Open_device dev, Kernel_driver_active (handle k) ifn] @
           (if detached_kernel k then [Detach_kernel_driver (handle k) ifn] else []) @
           [Claim_interface (handle k) ifn, Control_transfer (init_setup k)]"
    using cs(4) by (simp add: k sys_simps)
qed

lemma dtor_calls:
  "calls (kvm_device_dtor k s) =
     calls s @ (if detached_kernel k
                then [Attach_kernel_driver (handle k) (interface_number k)] else []) @
     [Close_handle (handle k), Unref_device (device k)]"
  by (simp add: kvm_device_dtor_def Let_def sys_simps)

text \<open>
  C5. For a session that the constructor returns, the flag \<open>detached_kernel\<close> is true
  exactly when \<open>libusb_kernel_driver_active\<close> reported a driver bound to the interface,
  and exactly when the constructor called \<open>libusb_detach_kernel_driver\<close> (which then
  succeeded). The destructor calls \<open>libusb_attach_kernel_driver\<close> once when the flag is
  true and not at all when it is false, then closes the handle, then releases the device
  reference.
\<close>

theorem detached_flag:
  assumes "kvm_device_ctor w dev ifn s = (Inr k, s')"
  shows "detached_kernel k = (0 < kernel_driver_active_rc w (handle k) ifn) \<and>
         detached_kernel k = (Detach_kernel_driver (handle k) ifn \<in> set (drop (length (calls s)) (calls s'))) \<and>
         (detached_kernel k \<longrightarrow> 0 \<le> detach_rc w (handle k) ifn) \<and>
         calls (kvm_device_dtor k s2) =
           calls s2 @ (if detached_kernel k then [Attach_kernel_driver (handle k) ifn] else []) @
           [Close_handle (handle k), Unref_device dev]"
  using ctor_success(1,2,6,7,10) [OF assms] by (simp add: dtor_calls)

lemmas ctor_defs = kvm_device_ctor_def ctor_claim_def ctor_fail_def initialize_def
  send_request_def request_setup_payload libusb_open_def Let_def call_def eprint_def


text \<open>
  The theorem in \<open>kvm_world\<close>, where a kernel driver is bound: the flag is set and the
  destructor reattaches the driver once. In the same world without a bound driver the
  flag is clear and the destructor does not reattach.
\<close>

theorem detached_flag_witness:
  "kvm_device_ctor kvm_world 7 3 sys0 =
     (Inr kvm_session,
      \<lparr>calls = [Open_device 7, Kernel_driver_active (Some 9) 3, Detach_kernel_driver (Some 9) 3,
                Claim_interface (Some 9) 3, Control_transfer (init_setup kvm_session)],
       stderr = []\<rparr>) \<and>
   detached_kernel kvm_session \<and>
   0 < kernel_driver_active_rc kvm_world (Some 9) 3 \<and>
   calls (kvm_device_dtor kvm_session sys0) =
     [Attach_kernel_driver (Some 9) 3, Close_handle (Some 9), Unref_device 7] \<and>
   kvm_device_ctor (kvm_world\<lparr>kernel_driver_active_rc := (\<lambda>h i. 0)\<rparr>) 7 3 sys0 =
     (Inr (kvm_session\<lparr>detached_kernel := False\<rparr>),
      \<lparr>calls = [Open_device 7, Kernel_driver_active (Some 9) 3,
                Claim_interface (Some 9) 3, Control_transfer (init_setup kvm_session)],
       stderr = []\<rparr>) \<and>
   calls (kvm_device_dtor (kvm_session\<lparr>detached_kernel := False\<rparr>) sys0) =
     [Close_handle (Some 9), Unref_device 7]"
proof -
  have c: "kvm_device_ctor kvm_world 7 3 sys0 =
     (Inr kvm_session,
      \<lparr>calls = [Open_device 7, Kernel_driver_active (Some 9) 3, Detach_kernel_driver (Some 9) 3,
                Claim_interface (Some 9) 3, Control_transfer (init_setup kvm_session)],
       stderr = []\<rparr>)"
    by (simp add: ctor_defs kvm_world_def sys0_def kvm_session_def init_setup_def)
  have c': "kvm_device_ctor (kvm_world\<lparr>kernel_driver_active_rc := (\<lambda>h i. 0)\<rparr>) 7 3 sys0 =
     (Inr (kvm_session\<lparr>detached_kernel := False\<rparr>),
      \<lparr>calls = [Open_device 7, Kernel_driver_active (Some 9) 3,
                Claim_interface (Some 9) 3, Control_transfer (init_setup kvm_session)],
       stderr = []\<rparr>)"
    by (simp add: ctor_defs kvm_world_def sys0_def kvm_session_def init_setup_def)
  show ?thesis
    using detached_flag [OF c, of sys0] detached_flag [OF c', of sys0] c c'
    by (simp add: kvm_session_def sys0_def)
qed

section \<open>The topology check\<close>

text \<open>
  C6. Let exactly one device match and let its active configuration descriptor be read.
  When the configuration does not have exactly 2 interfaces, or the interface at index 1
  does not have exactly 1 alternate setting, \<open>find_device\<close> returns no session, prints
  the line that names the unexpected count, and has made no call that opens a device or
  claims an interface. When the topology is as expected, the interface number of a
  constructed session is the \<open>bInterfaceNumber\<close> of that alternate setting.
\<close>

theorem topology_gate:
  assumes "0 \<le> fst (device_list w)"
      and "filter (descriptor_matches w 0x2101 0x1406) (enumerated w) = [dev]"
      and "config_rc w dev = 0"
  shows "(bNumInterfaces (config_of w dev) \<noteq> 2 \<or>
          num_altsetting (interface (config_of w dev) ! 1) \<noteq> 1 \<longrightarrow>
            fst (find_device w s) = Inr None \<and>
            calls (snd (find_device w s)) =
              calls (snd (find_devices w 0x2101 0x1406 s)) @ [Get_active_config_descriptor dev] \<and>
            filter opens_or_claims (drop (length (calls s)) (calls (snd (find_device w s)))) = [] \<and>
            stderr (snd (find_device w s)) =
              stderr s @
              [if bNumInterfaces (config_of w dev) \<noteq> 2
               then Bad_interface_count (bNumInterfaces (config_of w dev))
               else Bad_altsetting_count (num_altsetting (interface (config_of w dev) ! 1))]) \<and>
         (bNumInterfaces (config_of w dev) = 2 \<and>
          num_altsetting (interface (config_of w dev) ! 1) = 1 \<longrightarrow>
            (\<forall>k. fst (find_device w s) = Inr (Some k) \<longrightarrow>
                 interface_number k =
                   uint (bInterfaceNumber (altsetting (interface (config_of w dev) ! 1) ! 0))))"
proof -
  define s1 where "s1 = snd (find_devices w vendor_id product_id s)"
  let ?s2 = "call (Get_active_config_descriptor dev) s1"
  let ?c = "config_of w dev"
  let ?ifn = "uint (bInterfaceNumber (altsetting (interface ?c ! 1) ! 0))"
  have ids: "vendor_id = 0x2101" "product_id = 0x1406"
    by (simp_all add: vendor_id_def product_id_def)
  have "fst (find_devices w vendor_id product_id s) = Inr [dev]"
    using find_devices_result [OF assms(1), of vendor_id product_id s] assms(2) by (simp add: ids)
  then have fd: "find_devices w vendor_id product_id s = (Inr [dev], s1)"
    by (simp add: prod_eq_iff s1_def)
  have no: "filter opens_or_claims (drop (length (calls s)) (calls s1)) = []"
    unfolding s1_def by (rule find_devices_no_open)
  have le: "length (calls s) \<le> length (calls s1)"
    by (simp add: s1_def find_devices_calls [OF assms(1)])
  have bad1: "find_device w s = (Inr None, eprint (Bad_interface_count (bNumInterfaces ?c)) ?s2)"
    if "bNumInterfaces ?c \<noteq> 2"
    using that assms(3) by (simp add: find_device_def fd libusb_get_active_config_descriptor_def Let_def)
  have bad2: "find_device w s =
                (Inr None, eprint (Bad_altsetting_count (num_altsetting (interface ?c ! 1))) ?s2)"
    if "bNumInterfaces ?c = 2" "num_altsetting (interface ?c ! 1) \<noteq> 1"
    using that assms(3) by (simp add: find_device_def fd libusb_get_active_config_descriptor_def Let_def)
  have good: "find_device w s =
                (case kvm_device_ctor w dev ?ifn (call (Free_config_descriptor dev) ?s2) of
                   (Inl e, s4) \<Rightarrow> (Inl e, s4) | (Inr k, s4) \<Rightarrow> (Inr (Some k), s4))"
    if "bNumInterfaces ?c = 2" "num_altsetting (interface ?c ! 1) = 1"
    using that assms(3) by (simp add: find_device_def fd libusb_get_active_config_descriptor_def Let_def)
  have g: "interface_number k = ?ifn"
    if t1: "bNumInterfaces ?c = 2" and t2: "num_altsetting (interface ?c ! 1) = 1"
      and t3: "fst (find_device w s) = Inr (Some k)" for k
  proof -
    from t3 obtain s4 where
      "kvm_device_ctor w dev ?ifn (call (Free_config_descriptor dev) ?s2) = (Inr k, s4)"
      by (auto simp: good [OF t1 t2] split: prod.splits sum.splits)
    then show ?thesis by (rule ctor_success(2))
  qed
  have st: "stderr s1 = stderr s"
    by (simp add: s1_def find_devices_stderr)
  have b: "fst (find_device w s) = Inr None \<and>
           calls (snd (find_device w s)) = calls s1 @ [Get_active_config_descriptor dev] \<and>
           filter opens_or_claims (drop (length (calls s)) (calls (snd (find_device w s)))) = [] \<and>
           stderr (snd (find_device w s)) =
              stderr s @
              [if bNumInterfaces ?c \<noteq> 2 then Bad_interface_count (bNumInterfaces ?c)
               else Bad_altsetting_count (num_altsetting (interface ?c ! 1))]"
    if "bNumInterfaces ?c \<noteq> 2 \<or> num_altsetting (interface ?c ! 1) \<noteq> 1"
  proof (cases "bNumInterfaces ?c \<noteq> 2")
    case True
    show ?thesis
      using no le True
      by (simp add: bad1 [OF True] sys_simps st opens_or_claims_def)
  next
    case False
    with that have f: "bNumInterfaces ?c = 2" "num_altsetting (interface ?c ! 1) \<noteq> 1" by auto
    show ?thesis
      using no le f
      by (simp add: bad2 [OF f] sys_simps st opens_or_claims_def)
  qed
  have s1': "s1 = snd (find_devices w 0x2101 0x1406 s)"
    by (simp add: s1_def ids)
  from b [unfolded s1'] g show ?thesis by blast
qed

lemmas scan_defs = find_devices_def libusb_get_device_descriptor_def

text \<open>
  The theorem in \<open>kvm_world\<close>, where the topology is as expected and the alternate
  setting at index 1 has interface number 3, and in the same world with a configuration of
  three interfaces.
\<close>

theorem topology_gate_witness:
  "filter (descriptor_matches kvm_world 0x2101 0x1406) (enumerated kvm_world) = [7] \<and>
   bNumInterfaces (config_of kvm_world 7) = 2 \<and>
   num_altsetting (interface (config_of kvm_world 7) ! 1) = 1 \<and>
   fst (find_device kvm_world sys0) = Inr (Some kvm_session) \<and>
   interface_number kvm_session = 3 \<and>
   bNumInterfaces (config_of (kvm_world\<lparr>config_of := (\<lambda>d. three_interfaces)\<rparr>) 7) = 3 \<and>
   fst (find_device (kvm_world\<lparr>config_of := (\<lambda>d. three_interfaces)\<rparr>) sys0) = Inr None \<and>
   stderr (snd (find_device (kvm_world\<lparr>config_of := (\<lambda>d. three_interfaces)\<rparr>) sys0)) =
     [Bad_interface_count 3]"
proof -
  let ?w = "kvm_world\<lparr>config_of := (\<lambda>d. three_interfaces)\<rparr>"
  have a: "0 \<le> fst (device_list kvm_world)" "0 \<le> fst (device_list ?w)"
    by (simp_all add: kvm_world_def)
  have f: "filter (descriptor_matches kvm_world 0x2101 0x1406) (enumerated kvm_world) = [7]"
    by (simp add: enumerated_def descriptor_matches_ids ids_match_def kvm_world_def)
  have f': "filter (descriptor_matches ?w 0x2101 0x1406) (enumerated ?w) = [7]"
    by (simp add: enumerated_def descriptor_matches_ids ids_match_def kvm_world_def)
  have c: "config_rc kvm_world 7 = 0" "config_rc ?w 7 = 0"
    by (simp_all add: kvm_world_def)
  have t: "bNumInterfaces (config_of kvm_world 7) = 2"
          "num_altsetting (interface (config_of kvm_world 7) ! 1) = 1"
          "uint (bInterfaceNumber (altsetting (interface (config_of kvm_world 7) ! 1) ! 0)) = 3"
    by (simp_all add: kvm_world_def bNumInterfaces_def num_altsetting_def)
  have t': "bNumInterfaces (config_of ?w 7) = 3"
    by (simp add: three_interfaces_def bNumInterfaces_def)
  have r: "fst (find_device kvm_world sys0) = Inr (Some kvm_session)"
    by (simp add: find_device_def scan_defs libusb_get_active_config_descriptor_def
          bNumInterfaces_def num_altsetting_def vendor_id_def product_id_def
          kvm_device_ctor_def ctor_claim_def ctor_fail_def initialize_def
          send_request_def request_setup_payload libusb_open_def Let_def call_def eprint_def
          kvm_world_def sys0_def kvm_session_def)
  have g: "interface_number kvm_session = 3"
    using topology_gate [OF a(1) f c(1), of sys0] t r by simp
  have b: "fst (find_device ?w sys0) = Inr None \<and>
           stderr (snd (find_device ?w sys0)) = [Bad_interface_count 3]"
    using topology_gate [OF a(2) f' c(2), of sys0] t' by (simp add: sys0_def)
  from f t(1,2) r g t' b show ?thesis by simp
qed


section \<open>Release of resources when the acquisition fails\<close>

text \<open>
  A failing \<open>libusb_open\<close> releases the device reference. A failing kernel-driver query,
  detach or claim goes through the label \<open>fail\<close>: the driver is reattached when it was
  detached, the handle is closed and the reference released.
\<close>

lemma ctor_open_failure_rollback:
  assumes "open_rc w dev < 0"
  shows "kvm_device_ctor w dev ifn s =
           (Inl (Throw_int (open_rc w dev)),
            call (Unref_device dev) (eprint Open_failed (call (Open_device dev) s)))"
  using assms by (simp add: kvm_device_ctor_def libusb_open_def Let_def)

lemma ctor_query_failure_rollback:
  assumes "open_rc w dev = 0"
      and "kernel_driver_active_rc w (Some (open_handle w dev)) ifn < 0"
  shows "fst (kvm_device_ctor w dev ifn s) =
           Inl (Throw_int (kernel_driver_active_rc w (Some (open_handle w dev)) ifn))"
    and "calls (snd (kvm_device_ctor w dev ifn s)) =
           calls s @
           [Open_device dev, Kernel_driver_active (Some (open_handle w dev)) ifn,
            Close_handle (Some (open_handle w dev)), Unref_device dev]"
  using assms
  by (auto simp: kvm_device_ctor_def ctor_fail_def libusb_open_def Let_def sys_simps)

lemma ctor_detach_failure_rollback:
  assumes "open_rc w dev = 0"
      and "0 < kernel_driver_active_rc w (Some (open_handle w dev)) ifn"
      and "detach_rc w (Some (open_handle w dev)) ifn < 0"
  shows "fst (kvm_device_ctor w dev ifn s) =
           Inl (Throw_int (detach_rc w (Some (open_handle w dev)) ifn))"
    and "calls (snd (kvm_device_ctor w dev ifn s)) =
           calls s @
           [Open_device dev, Kernel_driver_active (Some (open_handle w dev)) ifn,
            Detach_kernel_driver (Some (open_handle w dev)) ifn,
            Close_handle (Some (open_handle w dev)), Unref_device dev]"
  using assms
  by (auto simp: kvm_device_ctor_def ctor_fail_def libusb_open_def Let_def sys_simps)


lemma ctor_claim_failure_rollback:
  assumes "open_rc w dev = 0"
      and "0 \<le> kernel_driver_active_rc w (Some (open_handle w dev)) ifn"
      and "kernel_driver_active_rc w (Some (open_handle w dev)) ifn \<noteq> 0 \<longrightarrow>
           0 \<le> detach_rc w (Some (open_handle w dev)) ifn"
      and "claim_rc w (Some (open_handle w dev)) ifn < 0"
  shows "fst (kvm_device_ctor w dev ifn s) =
           Inl (Throw_int (claim_rc w (Some (open_handle w dev)) ifn))"
    and "calls (snd (kvm_device_ctor w dev ifn s)) =
           calls s @
           [Open_device dev, Kernel_driver_active (Some (open_handle w dev)) ifn] @
           (if kernel_driver_active_rc w (Some (open_handle w dev)) ifn \<noteq> 0
            then [Detach_kernel_driver (Some (open_handle w dev)) ifn] else []) @
           [Claim_interface (Some (open_handle w dev)) ifn] @
           (if kernel_driver_active_rc w (Some (open_handle w dev)) ifn \<noteq> 0
            then [Attach_kernel_driver (Some (open_handle w dev)) ifn] else []) @
           [Close_handle (Some (open_handle w dev)), Unref_device dev]"
  using assms
  by (auto simp: kvm_device_ctor_def ctor_claim_def ctor_fail_def libusb_open_def Let_def
        sys_simps)

text \<open>
  A failing \<open>initialize\<close> throws out of the constructor: after the control transfer no
  further libusb call is made.
\<close>

lemma ctor_initialize_failure:
  assumes "open_rc w dev = 0"
      and "0 \<le> kernel_driver_active_rc w (Some (open_handle w dev)) ifn"
      and "kernel_driver_active_rc w (Some (open_handle w dev)) ifn \<noteq> 0 \<longrightarrow>
           0 \<le> detach_rc w (Some (open_handle w dev)) ifn"
      and "0 \<le> claim_rc w (Some (open_handle w dev)) ifn"
      and "k = \<lparr>device = dev, handle = Some (open_handle w dev), interface_number = ifn,
                detached_kernel = (kernel_driver_active_rc w (Some (open_handle w dev)) ifn \<noteq> 0)\<rparr>"
      and "transfer_rc w (init_setup k) \<noteq> 5"
  shows "\<exists>rc. fst (kvm_device_ctor w dev ifn s) = Inl (Throw_int rc)"
    and "calls (snd (kvm_device_ctor w dev ifn s)) =
           calls s @
           [Open_device dev, Kernel_driver_active (Some (open_handle w dev)) ifn] @
           (if detached_kernel k then [Detach_kernel_driver (Some (open_handle w dev)) ifn] else []) @
           [Claim_interface (Some (open_handle w dev)) ifn, Control_transfer (init_setup k)]"
proof -
  have i: "fst (initialize w k s1) \<noteq> Inr ()" for s1
    using assms(6) by (simp add: initialize_ok)
  have e: "\<exists>rc. fst (initialize w k s1) = Inl (Throw_int rc)" for s1
    using i [of s1]
    by (cases "fst (send_request w k [0x03, 0x00, 0x00, 0x00, 0x00] 5 100 s1) < 0")
       (simp_all add: initialize_def Let_def)
  have c: "(\<exists>rc. fst (ctor_claim w k s1) = Inl (Throw_int rc)) \<and>
           snd (ctor_claim w k s1) = snd (initialize w k (call (Claim_interface (handle k) ifn) s1))"
    for s1
    using assms(4) e [of "call (Claim_interface (handle k) ifn) s1"]
    by (auto simp: ctor_claim_def Let_def assms(5) split: prod.splits sum.splits)
  have r: "kvm_device_ctor w dev ifn s =
             ctor_claim w k (if detached_kernel k
                             then call (Detach_kernel_driver (handle k) ifn)
                                    (call (Kernel_driver_active (handle k) ifn) (call (Open_device dev) s))
                             else call (Kernel_driver_active (handle k) ifn) (call (Open_device dev) s))"
    using assms(1,2,3) by (auto simp: kvm_device_ctor_def libusb_open_def Let_def assms(5))
  show "\<exists>rc. fst (kvm_device_ctor w dev ifn s) = Inl (Throw_int rc)"
    using c by (simp add: r)
  show "calls (snd (kvm_device_ctor w dev ifn s)) =
           calls s @
           [Open_device dev, Kernel_driver_active (Some (open_handle w dev)) ifn] @
           (if detached_kernel k then [Detach_kernel_driver (Some (open_handle w dev)) ifn] else []) @
           [Claim_interface (Some (open_handle w dev)) ifn, Control_transfer (init_setup k)]"
    using c by (simp add: r initialize_calls sys_simps) (simp add: assms(5))
qed

text \<open>
  C2 states that a failing initialization transfer ends the construction with the driver
  reattached, the handle closed and the device reference released. The constructor at a
  device whose kernel driver was detached and whose initialization transfer returns -1:
  it throws -1, and after the transfer it calls neither \<open>libusb_attach_kernel_driver\<close>
  nor \<open>libusb_close\<close> nor \<open>libusb_unref_device\<close>.
\<close>

theorem ctor_initialize_failure_no_cleanup:
  "kvm_device_ctor (kvm_world\<lparr>transfer_rc := (\<lambda>setup. - 1)\<rparr>) 7 3 sys0 =
     (Inl (Throw_int (- 1)),
      \<lparr>calls = [Open_device 7, Kernel_driver_active (Some 9) 3, Detach_kernel_driver (Some 9) 3,
                Claim_interface (Some 9) 3, Control_transfer (init_setup kvm_session)],
       stderr = [Write_failed]\<rparr>)"
  by (simp add: ctor_defs kvm_world_def sys0_def kvm_session_def init_setup_def)

text \<open>
  C1 states that every failing acquisition releases all it acquired. \<open>find_device\<close> with
  two matching devices: both references taken by \<open>find_devices\<close> are kept, no
  \<open>libusb_unref_device\<close> follows. \<open>find_device\<close> with one matching device of three
  interfaces: the reference is kept and the configuration descriptor is not freed.
\<close>

theorem find_device_leaks_references:
  "find_device two_kvm_world sys0 =
     (Inr None,
      \<lparr>calls = [Get_device_list, Get_device_descriptor 6, Ref_device 6,
                Get_device_descriptor 7, Ref_device 7, Free_device_list [6, 7] 1],
       stderr = [Multiple_devices]\<rparr>) \<and>
   find_device (kvm_world\<lparr>config_of := (\<lambda>d. three_interfaces)\<rparr>) sys0 =
     (Inr None,
      \<lparr>calls = [Get_device_list, Get_device_descriptor 5, Get_device_descriptor 7, Ref_device 7,
                Get_device_descriptor 8, Free_device_list [5, 7, 8] 1,
                Get_active_config_descriptor 7],
       stderr = [Bad_interface_count 3]\<rparr>)"
  by (simp add: find_device_def scan_defs libusb_get_active_config_descriptor_def
        bNumInterfaces_def num_altsetting_def vendor_id_def product_id_def
        Let_def call_def eprint_def two_kvm_world_def three_interfaces_def
        kvm_world_def sys0_def)

section \<open>The exit code\<close>

lemma main_exit_zero_iff:
  "(fst (main w s) = Exit_code 0) =
     (init_rc w = 0 \<and> (\<exists>k. fst (find_device w (call Init s)) = Inr (Some k)))"
  by (auto simp: main_def main_catch_def libusb_init_def Let_def
        split: prod.splits sum.splits option.splits exn.splits)

lemma main_enumeration_failure:
  assumes "init_rc w = 0" and "fst (device_list w) < 0"
  shows "fst (main w s) = (if ssize_t_is_int w then Exit_code 1 else Terminated)"
  using assms
  by (simp add: main_def main_catch_def libusb_init_def Let_def find_device_def
        find_devices_error vendor_id_def product_id_def)

text \<open>
  C3 states that the exit code is 0 exactly when the trigger succeeds. \<open>main\<close> in a world
  where the session is acquired and the trigger transfer fails: \<open>trigger\<close> returns -1
  and prints its line, and \<open>main\<close> returns 0.
\<close>

theorem main_exit_zero_on_failed_trigger:
  "fst (trigger trigger_fails_world kvm_session sys0) = - 1 \<and>
   main trigger_fails_world sys0 =
     (Exit_code 0,
      \<lparr>calls = [Init, Get_device_list, Get_device_descriptor 5, Get_device_descriptor 7,
                Ref_device 7, Get_device_descriptor 8, Free_device_list [5, 7, 8] 1,
                Get_active_config_descriptor 7, Free_config_descriptor 7, Open_device 7,
                Kernel_driver_active (Some 9) 3, Detach_kernel_driver (Some 9) 3,
                Claim_interface (Some 9) 3, Control_transfer (init_setup kvm_session),
                Control_transfer (trigger_setup kvm_session),
                Attach_kernel_driver (Some 9) 3, Close_handle (Some 9), Unref_device 7,
                Exit (Some 1)],
       stderr = [Write_failed]\<rparr>)"
  by (simp add: main_def main_catch_def libusb_init_def trigger_def kvm_device_dtor_def
        find_device_def scan_defs libusb_get_active_config_descriptor_def
        bNumInterfaces_def num_altsetting_def vendor_id_def product_id_def
        kvm_device_ctor_def ctor_claim_def ctor_fail_def initialize_def
        send_request_def request_setup_payload libusb_open_def Let_def call_def eprint_def
        trigger_fails_world_def kvm_world_def sys0_def kvm_session_def init_setup_def
        trigger_setup_def)

end
